theory Spec2Isabelle
  imports Complex_Main
begin

section \<open>Focus areas (class FocusArea of focus\_area.py)\<close>

text \<open>
  Numbers. Pointer events carry Python ints (\<open>event.x\<close>, \<open>event.y\<close>), modelled as
  \<open>int\<close>. The canvas stores item coordinates as floats and \<open>canvas.coords\<close> returns
  floats; they are modelled as \<open>real\<close>. An int written to the canvas is embedded
  with \<open>of_int\<close>, which is exact for every screen coordinate, and so are the sums and
  differences of such values. The product with 0.382 that places the move handle is taken
  exactly. Where \<open>load_config\<close> computes with the floats of a file, the rounding of
  doubles is written out (\<open>round_to_double\<close>).

  Canvas items. \<open>canvas.coords(item)\<close> returns the four coordinates of a live rectangle or
  oval and the empty list for a deleted item: \<open>coords option\<close>, with \<open>None\<close> for the
  empty list. The canvas keeps the coordinates it is given.
\<close>

type_synonym coords = "real \<times> real \<times> real \<times> real"

definition MIN_SIZE :: int where
  "MIN_SIZE = 10"

text \<open>\<open>move_handle_size\<close> and \<open>resize_handle_size\<close> are assigned once in \<open>__init__\<close>
  and never again.\<close>

definition move_handle_size :: real where
  "move_handle_size = 8"

definition resize_handle_size :: real where
  "resize_handle_size = 10"

record FocusArea =
  start_x :: real
  start_y :: real
  rect :: "coords option"
  move_handle :: "coords option"
  drag_start_x :: int
  drag_start_y :: int
  is_dragging :: bool
  resize_mode :: "string option"

text \<open>\<open>FocusArea.__init__(parent, x, y, width, height)\<close>: the rectangle item, the oval
  of the move handle around the golden-ratio point of the left edge, and the idle
  interaction state.\<close>

definition FocusArea_init :: "real \<Rightarrow> real \<Rightarrow> real \<Rightarrow> real \<Rightarrow> FocusArea" where
  "FocusArea_init x y width height =
     (let handle_x = x;
          handle_y = y + height * 0.382
      in \<lparr> start_x = x, start_y = y,
           rect = Some (x, y, x + width, y + height),
           move_handle = Some (handle_x - move_handle_size, handle_y - move_handle_size,
                               handle_x + move_handle_size, handle_y + move_handle_size),
           drag_start_x = 0, drag_start_y = 0,
           is_dragging = False, resize_mode = None \<rparr>)"

text \<open>\<open>get_resize_mode(event_x, event_y)\<close>. The move-handle band is tested first, then
  the corners, then the single edges; anything else is \<open>move\<close>. \<open>None\<close> is Python's
  \<open>None\<close>, returned when the rectangle item has no coordinates.\<close>

definition get_resize_mode :: "FocusArea \<Rightarrow> real \<Rightarrow> real \<Rightarrow> string option" where
  "get_resize_mode self event_x event_y =
     (case rect self of
        None \<Rightarrow> None
      | Some (x1, y1, x2, y2) \<Rightarrow>
          (let height = y2 - y1;
               handle_y = y1 + height * 0.382;
               move_handle_buffer = 4
           in if \<bar>event_x - x1\<bar> < resize_handle_size + 5 \<and>
                 handle_y - move_handle_size - move_handle_buffer \<le> event_y \<and>
                 event_y \<le> handle_y + move_handle_size + move_handle_buffer
              then Some ''move''
              else
                (let handle = resize_handle_size;
                     near_left = (\<bar>event_x - x1\<bar> < handle);
                     near_right = (\<bar>event_x - x2\<bar> < handle);
                     near_top = (\<bar>event_y - y1\<bar> < handle);
                     near_bottom = (\<bar>event_y - y2\<bar> < handle)
                 in if near_top \<and> near_left then Some ''nw''
                    else if near_top \<and> near_right then Some ''ne''
                    else if near_bottom \<and> near_left then Some ''sw''
                    else if near_bottom \<and> near_right then Some ''se''
                    else if near_top then Some ''n''
                    else if near_bottom then Some ''s''
                    else if near_left then Some ''w''
                    else if near_right then Some ''e''
                    else Some ''move'')))"

text \<open>\<open>update_handle_position()\<close>: recentre the oval of the move handle on
  \<open>(x1, y1 + 0.382 * (y2 - y1))\<close>. Setting the coordinates of a deleted item does
  nothing.\<close>

definition update_handle_position :: "FocusArea \<Rightarrow> FocusArea" where
  "update_handle_position self =
     (case rect self of
        None \<Rightarrow> self
      | Some (x1, y1, x2, y2) \<Rightarrow>
          (let handle_x = x1;
               height = y2 - y1;
               handle_y = y1 + height * 0.382
           in case move_handle self of
                None \<Rightarrow> self
              | Some old \<Rightarrow>
                  self\<lparr> move_handle :=
                           Some (handle_x - move_handle_size, handle_y - move_handle_size,
                                 handle_x + move_handle_size, handle_y + move_handle_size) \<rparr>))"

text \<open>\<open>on_press(event)\<close>: start a drag and classify the press position.\<close>

definition on_press :: "FocusArea \<Rightarrow> int \<Rightarrow> int \<Rightarrow> FocusArea" where
  "on_press self event_x event_y =
     self\<lparr> drag_start_x := event_x, drag_start_y := event_y, is_dragging := True,
           resize_mode := get_resize_mode self (of_int event_x) (of_int event_y) \<rparr>"

text \<open>\<open>on_drag(event)\<close>. In mode \<open>move\<close> the rectangle item is translated by the
  pointer delta. In any other non-empty mode the edges named by the letters of the mode
  take the pointer coordinate (\<open>"n" in self.resize_mode\<close> is membership of the
  character), and the new coordinates are written only when width and height are both at
  least \<open>MIN_SIZE\<close>. An empty or missing mode is falsy: nothing happens.\<close>

definition on_drag :: "FocusArea \<Rightarrow> int \<Rightarrow> int \<Rightarrow> FocusArea" where
  "on_drag self event_x event_y =
     (if \<not> is_dragging self then self
      else case rect self of
        None \<Rightarrow> self
      | Some (x1, y1, x2, y2) \<Rightarrow>
          (let dx = event_x - drag_start_x self;
               dy = event_y - drag_start_y self
           in if resize_mode self = Some ''move''
              then self\<lparr> rect := Some (x1 + of_int dx, y1 + of_int dy,
                                        x2 + of_int dx, y2 + of_int dy),
                         drag_start_x := event_x, drag_start_y := event_y \<rparr>
              else case resize_mode self of
                None \<Rightarrow> self
              | Some m \<Rightarrow>
                  if m = [] then self
                  else
                    (let new_y1 = (if CHR ''n'' \<in> set m then of_int event_y else y1);
                         new_y2 = (if CHR ''s'' \<in> set m then of_int event_y else y2);
                         new_x1 = (if CHR ''w'' \<in> set m then of_int event_x else x1);
                         new_x2 = (if CHR ''e'' \<in> set m then of_int event_x else x2)
                     in if new_x2 - new_x1 \<ge> of_int MIN_SIZE \<and>
                           new_y2 - new_y1 \<ge> of_int MIN_SIZE
                        then (update_handle_position
                                (self\<lparr> rect := Some (new_x1, new_y1, new_x2, new_y2) \<rparr>))
                               \<lparr> drag_start_x := event_x, drag_start_y := event_y \<rparr>
                        else self)))"

text \<open>\<open>on_release(event)\<close>: back to idle.\<close>

definition on_release :: "FocusArea \<Rightarrow> FocusArea" where
  "on_release self = self\<lparr> is_dragging := False, resize_mode := None \<rparr>"

text \<open>\<open>get_coords()\<close>.\<close>

definition get_coords :: "FocusArea \<Rightarrow> coords option" where
  "get_coords self = rect self"

text \<open>The centre of an oval item, from its bounding box.\<close>

definition oval_center :: "coords \<Rightarrow> real \<times> real" where
  "oval_center c = (case c of (a, b, c, d) \<Rightarrow> ((a + c) / 2, (b + d) / 2))"

section \<open>The overlay window (class Focus\_AreaWindow)\<close>

text \<open>
  The editor state is the attributes of the window object together with what it has
  asked of the host: the \<open>-alpha\<close> attribute last set on the root window
  (\<open>root_alpha\<close>), whether the root window is shown or withdrawn (\<open>root_mapped\<close>),
  whether it was raised, made topmost and given the focus, and the background colours of
  the root window and the canvas. \<open>drawing_rect\<close> is the preview item of a draw
  gesture (item ids are positive, so a live id is truthy). \<open>current\<close> is the class
  attribute \<open>FocusArea.current\<close>, as an index into \<open>focus_areas\<close>.
\<close>

record Focus_AreaWindow =
  veil_color :: string
  veil_opacity :: real
  is_visible :: bool
  is_transparent_for_editing :: bool
  peek_through_opacity :: real
  is_peeking :: bool
  last_user_opacity :: real
  show_quick_start_on_startup :: bool
  focus_areas :: "FocusArea list"
  drawing_rect :: "coords option"
  draw_start_x :: int
  draw_start_y :: int
  current :: "nat option"
  root_alpha :: real
  root_mapped :: bool
  root_raised :: bool
  root_topmost :: bool
  root_focus :: bool
  root_bg :: string
  canvas_bg :: string

text \<open>\<open>peek_opacity\<close> is assigned once in \<open>__init__\<close> and never again.\<close>

definition peek_opacity :: real where
  "peek_opacity = 0.3"

text \<open>The state \<open>__init__\<close> builds before it loads the configuration.\<close>

definition Focus_AreaWindow_init :: Focus_AreaWindow where
  "Focus_AreaWindow_init =
     \<lparr> veil_color = ''#0C0000'', veil_opacity = 1.0, is_visible = True,
       is_transparent_for_editing = False, peek_through_opacity = 0.55,
       is_peeking = False, last_user_opacity = 1.0,
       show_quick_start_on_startup = True, focus_areas = [], drawing_rect = None,
       draw_start_x = 0, draw_start_y = 0, current = None,
       root_alpha = 1.0, root_mapped = True, root_raised = True, root_topmost = True,
       root_focus = True, root_bg = ''#0C0000'', canvas_bg = ''#0C0000'' \<rparr>"

text \<open>\<open>update_opacity()\<close>.\<close>

definition update_opacity :: "Focus_AreaWindow \<Rightarrow> Focus_AreaWindow" where
  "update_opacity self =
     (let self = self\<lparr> last_user_opacity := veil_opacity self \<rparr>
      in if \<not> is_peeking self \<and> \<not> is_transparent_for_editing self
         then self\<lparr> root_alpha := veil_opacity self \<rparr>
         else self)"

text \<open>\<open>set_transparent_for_editing(transparent)\<close>.\<close>

definition set_transparent_for_editing :: "Focus_AreaWindow \<Rightarrow> bool \<Rightarrow> Focus_AreaWindow" where
  "set_transparent_for_editing self transparent =
     (let self = self\<lparr> is_transparent_for_editing := transparent \<rparr>
      in if transparent then self\<lparr> root_alpha := peek_opacity \<rparr>
         else if \<not> is_peeking self then update_opacity self
         else self)"

text \<open>\<open>on_canvas_press(event)\<close>. \<open>overlapping\<close> is what the canvas answers to
  \<open>find_overlapping\<close> at the pointer: the tags of each item there.\<close>

definition on_canvas_press ::
  "Focus_AreaWindow \<Rightarrow> int \<Rightarrow> int \<Rightarrow> string list list \<Rightarrow> Focus_AreaWindow" where
  "on_canvas_press self event_x event_y overlapping =
     (if list_ex (\<lambda>tags. ''focus_area'' \<in> set tags \<or> ''move_handle'' \<in> set tags) overlapping
      then self
      else set_transparent_for_editing
             (self\<lparr> draw_start_x := event_x, draw_start_y := event_y \<rparr>) True)"

text \<open>\<open>on_canvas_drag(event)\<close>: replace the preview by the normalised rectangle of
  the anchor and the pointer. The anchor \<open>(0, 0)\<close> means that no gesture is in
  progress.\<close>

definition on_canvas_drag :: "Focus_AreaWindow \<Rightarrow> int \<Rightarrow> int \<Rightarrow> Focus_AreaWindow" where
  "on_canvas_drag self event_x event_y =
     (if draw_start_x self = 0 \<and> draw_start_y self = 0 then self
      else
        (let x1 = min (draw_start_x self) event_x;
             y1 = min (draw_start_y self) event_y;
             x2 = max (draw_start_x self) event_x;
             y2 = max (draw_start_y self) event_y
         in self\<lparr> drawing_rect := Some (of_int x1, of_int y1, of_int x2, of_int y2) \<rparr>))"

text \<open>\<open>on_canvas_release(event)\<close>.\<close>

definition on_canvas_release :: "Focus_AreaWindow \<Rightarrow> int \<Rightarrow> int \<Rightarrow> Focus_AreaWindow" where
  "on_canvas_release self event_x event_y =
     (if draw_start_x self = 0 \<and> draw_start_y self = 0 then self
      else
        (let self =
               (case drawing_rect self of
                  None \<Rightarrow> self
                | Some preview \<Rightarrow>
                    (let x1 = min (draw_start_x self) event_x;
                         y1 = min (draw_start_y self) event_y;
                         x2 = max (draw_start_x self) event_x;
                         y2 = max (draw_start_y self) event_y;
                         width = x2 - x1;
                         height = y2 - y1;
                         self = self\<lparr> drawing_rect := None \<rparr>
                     in if width \<ge> MIN_SIZE \<and> height \<ge> MIN_SIZE
                        then self\<lparr> focus_areas := focus_areas self @
                                 [FocusArea_init (of_int x1) (of_int y1)
                                    (of_int width) (of_int height)] \<rparr>
                        else self));
             self = self\<lparr> draw_start_x := 0, draw_start_y := 0 \<rparr>
         in set_transparent_for_editing self False))"

text \<open>The drag events of a gesture, in order.\<close>

definition on_canvas_drags :: "Focus_AreaWindow \<Rightarrow> (int \<times> int) list \<Rightarrow> Focus_AreaWindow" where
  "on_canvas_drags self events = foldl (\<lambda>s (x, y). on_canvas_drag s x y) self events"

text \<open>\<open>on_shift_press()\<close> and \<open>on_shift_release()\<close>.\<close>

definition on_shift_press :: "Focus_AreaWindow \<Rightarrow> Focus_AreaWindow" where
  "on_shift_press self =
     (if \<not> is_peeking self \<and> is_visible self
      then (let self = self\<lparr> is_peeking := True \<rparr>
            in if veil_opacity self > peek_through_opacity self
               then self\<lparr> root_alpha := peek_through_opacity self \<rparr>
               else self)
      else self)"

definition on_shift_release :: "Focus_AreaWindow \<Rightarrow> Focus_AreaWindow" where
  "on_shift_release self =
     (if is_peeking self
      then (let self = self\<lparr> is_peeking := False \<rparr>
            in if \<not> is_transparent_for_editing self
               then self\<lparr> root_alpha := veil_opacity self \<rparr>
               else self)
      else self)"

text \<open>\<open>on_pause_shortcut()\<close> (Ctrl+Shift+X): "Only pauses - does not toggle."\<close>

definition on_pause_shortcut :: "Focus_AreaWindow \<Rightarrow> Focus_AreaWindow" where
  "on_pause_shortcut self =
     (if is_visible self
      then self\<lparr> is_visible := False, root_mapped := False \<rparr>
      else self)"

text \<open>\<open>toggle_pause()\<close>: the handler of the canvas double click, and what both tray
  entries (\<open>tray_toggle_visibility\<close>, \<open>tray_toggle_pause\<close>) schedule on the window's
  own thread.\<close>

definition toggle_pause :: "Focus_AreaWindow \<Rightarrow> Focus_AreaWindow" where
  "toggle_pause self =
     (let self = self\<lparr> is_visible := \<not> is_visible self \<rparr>
      in if is_visible self
         then self\<lparr> root_alpha := veil_opacity self, root_mapped := True,
                    root_raised := True, root_topmost := True, root_focus := True \<rparr>
         else self\<lparr> root_mapped := False \<rparr>)"

definition tray_toggle_visibility :: "Focus_AreaWindow \<Rightarrow> Focus_AreaWindow" where
  "tray_toggle_visibility self = toggle_pause self"

definition tray_toggle_pause :: "Focus_AreaWindow \<Rightarrow> Focus_AreaWindow" where
  "tray_toggle_pause self = toggle_pause self"

text \<open>The opacity the specification resolves from the state: editing peek first, then
  shift peek, then the veil.\<close>

definition spec_effective_opacity :: "Focus_AreaWindow \<Rightarrow> real" where
  "spec_effective_opacity self =
     (if is_transparent_for_editing self then peek_opacity
      else if is_peeking self then peek_through_opacity self
      else veil_opacity self)"

section \<open>Saving and loading the configuration\<close>

text \<open>
  The configuration file holds one JSON object. \<open>json.dump\<close> and \<open>json.load\<close> belong
  to the Python library: a written file holds the value that was dumped, and reading a
  file gives back the value it holds, or raises.

  The four scalar entries are held with the type the configuration gives them (a string,
  two numbers, a boolean), each optional. Only \<open>focus_areas\<close> is kept as an arbitrary
  JSON value, because \<open>load_config\<close> inspects its shape. A file whose scalar entries
  have another JSON type is outside this model: Python would store such a value in the
  attribute as it is.
\<close>

datatype json =
    JNull
  | JBool bool
  | JNum real
  | JStr string
  | JArr "json list"
  | JObj "(string \<times> json) list"

record config =
  cfg_veil_color :: "string option"
  cfg_veil_opacity :: "real option"
  cfg_peek_through_opacity :: "real option"
  cfg_show_quick_start_on_startup :: "bool option"
  cfg_focus_areas :: "json option"

text \<open>What opening and parsing an existing file gives: \<open>open\<close> raises, \<open>json.load\<close>
  raises, the value is not a dict (it has no \<open>get\<close>), or it is a dict.\<close>

datatype file_content = Unreadable | Invalid_JSON | Not_a_dict | Dict config

datatype py_error = OSError | JSONDecodeError | AttributeError | TypeError | TclError

datatype dialog = Info_dialog string string | Error_dialog string py_error

text \<open>\<open>dict.get(key, default)\<close>.\<close>

definition dict_get :: "'a option \<Rightarrow> 'a \<Rightarrow> 'a" where
  "dict_get entry dflt = (case entry of None \<Rightarrow> dflt | Some v \<Rightarrow> v)"

text \<open>Python's \<open>len\<close>, iteration and numeric reading of a parsed JSON value. \<open>None\<close>
  is a \<open>TypeError\<close>. A string iterates over its characters and a dict over its keys;
  a boolean is an int in arithmetic.\<close>

fun py_len :: "json \<Rightarrow> nat option" where
  "py_len (JArr xs) = Some (length xs)"
| "py_len (JStr s) = Some (length s)"
| "py_len (JObj kvs) = Some (length kvs)"
| "py_len _ = None"

fun py_iter :: "json \<Rightarrow> json list option" where
  "py_iter (JArr xs) = Some xs"
| "py_iter (JStr s) = Some (map (\<lambda>c. JStr [c]) s)"
| "py_iter (JObj kvs) = Some (map (\<lambda>kv. JStr (fst kv)) kvs)"
| "py_iter _ = None"

fun py_num :: "json \<Rightarrow> real option" where
  "py_num (JNum r) = Some r"
| "py_num (JBool b) = Some (if b then 1 else 0)"
| "py_num _ = None"

text \<open>
  Double arithmetic. The numbers of a parsed configuration are Python floats, and
  \<open>load_config\<close> subtracts and adds them as doubles: every result is the exact result
  rounded to the nearest double, ties to even. \<open>round_to_double\<close> is that rounding for
  the normal range of doubles (53 significant bits; overflow and subnormal numbers, far
  from any screen coordinate, are not modelled).
\<close>

definition mantissa_bits :: nat where
  "mantissa_bits = 52"

definition round_ties_even :: "real \<Rightarrow> int" where
  "round_ties_even r =
     (let f = \<lfloor>r\<rfloor>; d = r - of_int f
      in if d < 1 / 2 then f
         else if d > 1 / 2 then f + 1
         else if even f then f else f + 1)"

definition round_to_double :: "real \<Rightarrow> real" where
  "round_to_double x =
     (if x = 0 then 0
      else (let e = \<lfloor>log 2 \<bar>x\<bar>\<rfloor>;
                ulp = 2 powr (of_int e - real mantissa_bits)
            in of_int (round_ties_even (x / ulp)) * ulp))"

text \<open>Coordinates that are whole numbers below \<open>2 ^ 52\<close> in absolute value, as every
  pointer position is: on them the differences and sums of \<open>load_config\<close> are
  exact.\<close>

definition whole :: "real \<Rightarrow> bool" where
  "whole x = (of_int \<lfloor>x\<rfloor> = x \<and> \<bar>x\<bar> < 2 ^ mantissa_bits)"

definition pixel_coords :: "coords \<Rightarrow> bool" where
  "pixel_coords c = (case c of (x1, y1, x2, y2) \<Rightarrow> whole x1 \<and> whole y1 \<and> whole x2 \<and> whole y2)"

text \<open>\<open>a - b\<close> on two values of a parsed file, as a double.\<close>

definition py_sub :: "json \<Rightarrow> json \<Rightarrow> real option" where
  "py_sub a b =
     (case py_num a of
        None \<Rightarrow> None
      | Some x \<Rightarrow>
          (case py_num b of None \<Rightarrow> None | Some y \<Rightarrow> Some (round_to_double (x - y))))"

text \<open>\<open>FocusArea.__init__\<close> on the float arguments that \<open>load_config\<close> passes: the
  same assignments as \<open>FocusArea_init\<close>, with each sum, difference and product
  rounded to a double. (On the int arguments of a draw gesture the sums are exact.)\<close>

definition FocusArea_init_float :: "real \<Rightarrow> real \<Rightarrow> real \<Rightarrow> real \<Rightarrow> FocusArea" where
  "FocusArea_init_float x y width height =
     (let handle_x = x;
          handle_y = round_to_double (y + round_to_double (height * round_to_double 0.382))
      in \<lparr> start_x = x, start_y = y,
           rect = Some (x, y, round_to_double (x + width), round_to_double (y + height)),
           move_handle = Some (round_to_double (handle_x - move_handle_size),
                               round_to_double (handle_y - move_handle_size),
                               round_to_double (handle_x + move_handle_size),
                               round_to_double (handle_y + move_handle_size)),
           drag_start_x = 0, drag_start_y = 0,
           is_dragging = False, resize_mode = None \<rparr>)"

text \<open>\<open>delete_all_focus_areas()\<close>: every area of the list deletes itself, which also
  clears \<open>FocusArea.current\<close> when it is that area.\<close>

definition delete_all_focus_areas :: "Focus_AreaWindow \<Rightarrow> Focus_AreaWindow" where
  "delete_all_focus_areas self =
     self\<lparr> current :=
             (case current self of
                None \<Rightarrow> None
              | Some i \<Rightarrow> if i < length (focus_areas self) then None else Some i),
           focus_areas := [] \<rparr>"

text \<open>The loop of \<open>load_config\<close> over the entries of \<open>focus_areas\<close>: an entry whose
  length is not 4 is skipped; an entry of length 4 is unpacked, and the area is created
  and appended, its width and height computed as doubles. The first exception ends the
  loop, and the areas appended before it stay.\<close>

fun load_focus_areas ::
  "FocusArea list \<Rightarrow> json list \<Rightarrow> (py_error \<times> FocusArea list) + FocusArea list" where
  "load_focus_areas areas [] = Inr areas"
| "load_focus_areas areas (coords # rest) =
     (case py_len coords of
        None \<Rightarrow> Inl (TypeError, areas)
      | Some n \<Rightarrow>
          if n = 4 then
            (case py_iter coords of
               Some [x1, y1, x2, y2] \<Rightarrow>
                 (case py_sub x2 x1 of
                    None \<Rightarrow> Inl (TypeError, areas)
                  | Some width \<Rightarrow>
                      (case py_sub y2 y1 of
                         None \<Rightarrow> Inl (TypeError, areas)
                       | Some height \<Rightarrow>
                           (case (py_num x1, py_num y1) of
                              (Some x, Some y) \<Rightarrow>
                                load_focus_areas (areas @ [FocusArea_init_float x y width height]) rest
                            | _ \<Rightarrow> Inl (TypeError, areas))))
             | _ \<Rightarrow> Inl (TypeError, areas))
          else load_focus_areas areas rest)"

text \<open>\<open>save_config()\<close>. \<open>write_ok\<close> says whether opening and writing the file
  succeeds. The result is the content of the file afterwards (\<open>None\<close> when the write
  failed) and the dialog shown.\<close>

definition coords_json :: "coords option \<Rightarrow> json" where
  "coords_json c =
     (case c of
        None \<Rightarrow> JArr []
      | Some (x1, y1, x2, y2) \<Rightarrow> JArr [JNum x1, JNum y1, JNum x2, JNum y2])"

definition save_config :: "Focus_AreaWindow \<Rightarrow> bool \<Rightarrow> file_content option \<times> dialog" where
  "save_config self write_ok =
     (let config =
            \<lparr> cfg_veil_color = Some (veil_color self),
              cfg_veil_opacity = Some (veil_opacity self),
              cfg_peek_through_opacity = Some (peek_through_opacity self),
              cfg_show_quick_start_on_startup = Some (show_quick_start_on_startup self),
              cfg_focus_areas = Some (JArr (map (\<lambda>fa. coords_json (get_coords fa))
                                              (focus_areas self))) \<rparr>
      in if write_ok
         then (Some (Dict config), Info_dialog ''Saved'' ''Configuration saved successfully!'')
         else (None, Error_dialog ''Failed to save configuration'' OSError))"

text \<open>\<open>load_config(show_message)\<close>. \<open>file\<close> is \<open>None\<close> when the file does not exist.
  \<open>valid_color\<close> is the host's check of a colour name: \<open>configure(bg=...)\<close> raises
  \<open>TclError\<close> on a name it does not know. Every exception is caught by the one handler,
  which shows the error dialog; what was assigned before the exception stays
  assigned.\<close>

definition load_config ::
  "(string \<Rightarrow> bool) \<Rightarrow> Focus_AreaWindow \<Rightarrow> file_content option \<Rightarrow> bool
     \<Rightarrow> Focus_AreaWindow \<times> dialog option" where
  "load_config valid_color self file show_message =
     (case file of
        None \<Rightarrow> (self, None)
      | Some Unreadable \<Rightarrow> (self, Some (Error_dialog ''Failed to load configuration'' OSError))
      | Some Invalid_JSON \<Rightarrow>
          (self, Some (Error_dialog ''Failed to load configuration'' JSONDecodeError))
      | Some Not_a_dict \<Rightarrow>
          (self, Some (Error_dialog ''Failed to load configuration'' AttributeError))
      | Some (Dict config) \<Rightarrow>
          (let self = self\<lparr>
                 veil_color := dict_get (cfg_veil_color config) ''#0C0000'',
                 veil_opacity := dict_get (cfg_veil_opacity config) 1.0,
                 peek_through_opacity := dict_get (cfg_peek_through_opacity config) 0.55,
                 show_quick_start_on_startup :=
                   dict_get (cfg_show_quick_start_on_startup config) True \<rparr>
           in if \<not> valid_color (veil_color self)
              then (self, Some (Error_dialog ''Failed to load configuration'' TclError))
              else
                (let self = self\<lparr> root_bg := veil_color self, canvas_bg := veil_color self \<rparr>;
                     self = update_opacity self;
                     self = delete_all_focus_areas self
                 in case py_iter (dict_get (cfg_focus_areas config) (JArr [])) of
                      None \<Rightarrow>
                        (self, Some (Error_dialog ''Failed to load configuration'' TypeError))
                    | Some entries \<Rightarrow>
                        (case load_focus_areas (focus_areas self) entries of
                           Inl (e, areas) \<Rightarrow>
                             (self\<lparr> focus_areas := areas \<rparr>,
                              Some (Error_dialog ''Failed to load configuration'' e))
                         | Inr areas \<Rightarrow>
                             (self\<lparr> focus_areas := areas \<rparr>,
                              if show_message
                              then Some (Info_dialog ''Loaded''
                                           ''Configuration loaded successfully!'')
                              else None)))))"

section \<open>Properties of a focus area\<close>

lemma rect_update_handle_position:
  "rect (update_handle_position self) = rect self"
  by (simp add: update_handle_position_def Let_def split: option.splits prod.splits)

text \<open>Scenario A of the specification: the area \<open>(100,100)-(300,250)\<close> pressed next to
  its bottom-right corner is dragged in mode \<open>se\<close>.\<close>

lemma scenario_A_area:
  "on_press (FocusArea_init 100 100 200 150) 295 245 =
     (FocusArea_init 100 100 200 150)\<lparr> drag_start_x := 295, drag_start_y := 245,
        is_dragging := True, resize_mode := Some ''se'' \<rparr>"
  by (simp add: on_press_def FocusArea_init_def get_resize_mode_def Let_def
      move_handle_size_def resize_handle_size_def)



text \<open>
  Claim C7. For every rectangle, \<open>get_resize_mode\<close> at the centre of the move handle,
  \<open>(x1, y1 + height * 0.382)\<close>, answers \<open>move\<close>, however close that point is to the
  edges and corners: the band of the move handle is tested before them.
\<close>

theorem C7_handle_center_is_move:
  assumes "rect self = Some (x1, y1, x2, y2)"
  shows "get_resize_mode self x1 (y1 + (y2 - y1) * 0.382) = Some ''move''"
proof -
  let ?handle_y = "y1 + (y2 - y1) * 0.382"
  have band: "\<bar>x1 - x1\<bar> < resize_handle_size + 5"
    "?handle_y - move_handle_size - 4 \<le> ?handle_y"
    "?handle_y \<le> ?handle_y + move_handle_size + 4"
    unfolding resize_handle_size_def move_handle_size_def by linarith+
  show ?thesis
    unfolding get_resize_mode_def Let_def assms using band
    by (simp only: option.case prod.case if_True simp_thms)
qed

text \<open>A rectangle of height 4: the handle centre is within 10 pixels of the top, the
  bottom and the left edge, and the answer is still \<open>move\<close>.\<close>

theorem C7_handle_center_is_move_witness:
  "get_resize_mode (FocusArea_init 0 0 12 4) 0 (0 + (4 - 0) * 0.382) = Some ''move''"
  using C7_handle_center_is_move [of "FocusArea_init 0 0 12 4" 0 0 12 4]
  by (simp add: FocusArea_init_def Let_def)

text \<open>
  Claim C9. After a committed resize step the oval of the move handle is centred on the
  left edge of the new bounds at 0.382 of their height: its centre is
  \<open>(x1, y1 + 0.382 * (y2 - y1))\<close> for the resulting bounds \<open>(x1, y1, x2, y2)\<close>.
\<close>

theorem C9_handle_after_resize:
  assumes drag: "is_dragging self"
    and coords: "rect self = Some (x1, y1, x2, y2)"
    and handle: "move_handle self = Some h"
    and mode: "resize_mode self = Some m" "m \<noteq> ''move''" "m \<noteq> []"
    and new: "new_top = (if CHR ''n'' \<in> set m then of_int py else y1)"
             "new_bottom = (if CHR ''s'' \<in> set m then of_int py else y2)"
             "new_left = (if CHR ''w'' \<in> set m then of_int px else x1)"
             "new_right = (if CHR ''e'' \<in> set m then of_int px else x2)"
    and committed: "new_right - new_left \<ge> of_int MIN_SIZE" "new_bottom - new_top \<ge> of_int MIN_SIZE"
  shows "rect (on_drag self px py) = Some (new_left, new_top, new_right, new_bottom) \<and>
         (\<exists>h'. move_handle (on_drag self px py) = Some h' \<and>
               oval_center h' = (new_left, new_top + 0.382 * (new_bottom - new_top)))"
proof -
  let ?r = "self\<lparr> rect := Some (new_left, new_top, new_right, new_bottom) \<rparr>"
  have step: "on_drag self px py =
      (update_handle_position ?r)\<lparr> drag_start_x := px, drag_start_y := py \<rparr>"
    using drag coords mode committed unfolding new
    by (simp add: on_drag_def Let_def)
  have upd: "move_handle (update_handle_position ?r) =
      Some (new_left - move_handle_size, new_top + (new_bottom - new_top) * 0.382 - move_handle_size,
            new_left + move_handle_size, new_top + (new_bottom - new_top) * 0.382 + move_handle_size)"
    using handle by (simp add: update_handle_position_def Let_def)
  show ?thesis
    unfolding step using upd
    by (simp add: rect_update_handle_position oval_center_def)
qed

theorem C9_handle_after_resize_witness:
  "rect (on_drag (on_press (FocusArea_init 100 100 200 150) 295 245) 130 110)
     = Some (100, 100, 130, 110) \<and>
   (\<exists>h'. move_handle (on_drag (on_press (FocusArea_init 100 100 200 150) 295 245) 130 110)
            = Some h' \<and> oval_center h' = (100, 100 + 0.382 * (110 - 100)))"
proof -
  let ?a = "on_press (FocusArea_init 100 100 200 150) 295 245"
  have a: "is_dragging ?a" "rect ?a = Some (100, 100, 300, 250)"
    "move_handle ?a = Some (92, 149.3, 108, 165.3)" "resize_mode ?a = Some ''se''"
    by (simp_all add: scenario_A_area)
       (simp_all add: FocusArea_init_def Let_def move_handle_size_def)
  have "rect (on_drag ?a 130 110) = Some (100, 100, 130, 110) \<and>
     (\<exists>h'. move_handle (on_drag ?a 130 110) = Some h' \<and>
           oval_center h' = (100, 100 + 0.382 * (110 - 100)))"
    by (rule C9_handle_after_resize [OF a(1) a(2) a(3) a(4)]) (simp_all add: MIN_SIZE_def)
  then show ?thesis .
qed

section \<open>Properties of the overlay window\<close>

text \<open>
  Claim C8. Pressing Shift while the veil is visible and shift peek is not active enters
  shift peek, and the window alpha becomes \<open>peek_through_opacity\<close> only when that is
  below \<open>veil_opacity\<close>; otherwise the applied alpha stays as it is. Releasing Shift
  while shift peek is active leaves shift peek, and the alpha returns to \<open>veil_opacity\<close>
  unless a draw gesture holds the editing peek, in which case it stays as it is. With
  \<open>veil_opacity = 1.0\<close> and \<open>peek_through_opacity = 0.55\<close> and no draw gesture, the
  press gives alpha 0.55 and the release gives 1.0 again (Scenario C).
\<close>

theorem C8_shift_peek:
  "(is_visible st \<and> \<not> is_peeking st \<longrightarrow>
      is_peeking (on_shift_press st) \<and>
      root_alpha (on_shift_press st) =
        (if peek_through_opacity st < veil_opacity st then peek_through_opacity st
         else root_alpha st)) \<and>
   (is_peeking st \<longrightarrow>
      \<not> is_peeking (on_shift_release st) \<and>
      root_alpha (on_shift_release st) =
        (if is_transparent_for_editing st then root_alpha st else veil_opacity st)) \<and>
   (is_visible st \<and> \<not> is_peeking st \<and> \<not> is_transparent_for_editing st \<and>
    veil_opacity st = 1.0 \<and> peek_through_opacity st = 0.55 \<longrightarrow>
      root_alpha (on_shift_press st) = 0.55 \<and>
      root_alpha (on_shift_release (on_shift_press st)) = 1.0)"
  by (simp add: on_shift_press_def on_shift_release_def Let_def)

text \<open>Scenario C on the initial state of the window.\<close>

theorem C8_shift_peek_witness:
  "is_visible Focus_AreaWindow_init \<and> \<not> is_peeking Focus_AreaWindow_init \<and>
   \<not> is_transparent_for_editing Focus_AreaWindow_init \<and>
   veil_opacity Focus_AreaWindow_init = 1.0 \<and>
   peek_through_opacity Focus_AreaWindow_init = 0.55 \<and>
   is_peeking (on_shift_press Focus_AreaWindow_init) \<and>
   root_alpha (on_shift_press Focus_AreaWindow_init) = 0.55 \<and>
   \<not> is_peeking (on_shift_release (on_shift_press Focus_AreaWindow_init)) \<and>
   root_alpha (on_shift_release (on_shift_press Focus_AreaWindow_init)) = 1.0"
proof -
  have init: "is_visible Focus_AreaWindow_init" "\<not> is_peeking Focus_AreaWindow_init"
    "\<not> is_transparent_for_editing Focus_AreaWindow_init"
    "veil_opacity Focus_AreaWindow_init = 1.0"
    "peek_through_opacity Focus_AreaWindow_init = 0.55"
    by (simp_all add: Focus_AreaWindow_init_def)
  have pressed: "is_peeking (on_shift_press Focus_AreaWindow_init)"
    "\<not> is_transparent_for_editing (on_shift_press Focus_AreaWindow_init)"
    "veil_opacity (on_shift_press Focus_AreaWindow_init) = 1.0"
    using init C8_shift_peek [of Focus_AreaWindow_init]
    by (simp_all add: on_shift_press_def Let_def)
  show ?thesis
    using init pressed C8_shift_peek [of Focus_AreaWindow_init]
      C8_shift_peek [of "on_shift_press Focus_AreaWindow_init"]
    by simp
qed

text \<open>While the anchor is \<open>(0, 0)\<close>, drag events do nothing.\<close>

lemma on_canvas_drags_idle:
  "draw_start_x s = 0 \<Longrightarrow> draw_start_y s = 0 \<Longrightarrow> on_canvas_drags s events = s"
  unfolding on_canvas_drags_def
  by (induction events) (simp_all add: on_canvas_drag_def split: prod.splits)

text \<open>
  Claim C10. A press at exactly \<open>(0, 0)\<close> on empty canvas leaves the anchor equal to the
  idle sentinel \<open>(0, 0)\<close>. Whatever drag events follow, no preview rectangle is drawn;
  whatever the release position, no focus area is created; and the release returns before
  \<open>set_transparent_for_editing(False)\<close>, so the editing peek that the press switched
  on (alpha \<open>peek_opacity\<close>) stays on.
\<close>

theorem C10_origin_press_is_idle:
  assumes empty: "\<not> list_ex (\<lambda>tags. ''focus_area'' \<in> set tags \<or> ''move_handle'' \<in> set tags)
                      overlapping"
  shows "on_canvas_drags (on_canvas_press st 0 0 overlapping) events
           = on_canvas_press st 0 0 overlapping \<and>
         on_canvas_release (on_canvas_drags (on_canvas_press st 0 0 overlapping) events) rx ry
           = on_canvas_press st 0 0 overlapping \<and>
         focus_areas (on_canvas_press st 0 0 overlapping) = focus_areas st \<and>
         drawing_rect (on_canvas_press st 0 0 overlapping) = drawing_rect st \<and>
         is_transparent_for_editing (on_canvas_press st 0 0 overlapping) \<and>
         root_alpha (on_canvas_press st 0 0 overlapping) = peek_opacity"
proof -
  let ?pressed = "on_canvas_press st 0 0 overlapping"
  have p: "?pressed = st\<lparr> draw_start_x := 0, draw_start_y := 0,
                          is_transparent_for_editing := True, root_alpha := peek_opacity \<rparr>"
    using empty
    by (simp add: on_canvas_press_def set_transparent_for_editing_def Let_def)
  have idle: "draw_start_x ?pressed = 0" "draw_start_y ?pressed = 0"
    by (simp_all add: p)
  have drags: "on_canvas_drags ?pressed events = ?pressed"
    using idle by (rule on_canvas_drags_idle)
  have release: "on_canvas_release ?pressed rx ry = ?pressed"
    using idle by (simp add: on_canvas_release_def)
  have rest: "focus_areas ?pressed = focus_areas st" "drawing_rect ?pressed = drawing_rect st"
    "is_transparent_for_editing ?pressed" "root_alpha ?pressed = peek_opacity"
    by (simp_all add: p)
  show ?thesis
    using drags release rest by simp
qed

text \<open>From the initial state: press at the origin, drag through \<open>(40,30)\<close> to
  \<open>(200,150)\<close>, release there.\<close>

theorem C10_origin_press_is_idle_witness:
  "on_canvas_release
     (on_canvas_drags (on_canvas_press Focus_AreaWindow_init 0 0 []) [(40, 30), (200, 150)])
     200 150 = on_canvas_press Focus_AreaWindow_init 0 0 [] \<and>
   focus_areas (on_canvas_press Focus_AreaWindow_init 0 0 []) = [] \<and>
   drawing_rect (on_canvas_press Focus_AreaWindow_init 0 0 []) = None \<and>
   is_transparent_for_editing (on_canvas_press Focus_AreaWindow_init 0 0 []) \<and>
   root_alpha (on_canvas_press Focus_AreaWindow_init 0 0 []) = 0.3"
proof -
  have e: "\<not> list_ex (\<lambda>tags. ''focus_area'' \<in> set tags \<or> ''move_handle'' \<in> set tags) []"
    by simp
  have i: "focus_areas Focus_AreaWindow_init = []" "drawing_rect Focus_AreaWindow_init = None"
    by (simp_all add: Focus_AreaWindow_init_def)
  note w = C10_origin_press_is_idle [OF e, of Focus_AreaWindow_init "[(40, 30), (200, 150)]"
      200 150]
  have release: "on_canvas_release
     (on_canvas_drags (on_canvas_press Focus_AreaWindow_init 0 0 []) [(40, 30), (200, 150)])
     200 150 = on_canvas_press Focus_AreaWindow_init 0 0 []"
    using w by (rule conjunct2 [THEN conjunct1])
  have rest: "focus_areas (on_canvas_press Focus_AreaWindow_init 0 0 []) = []"
    "drawing_rect (on_canvas_press Focus_AreaWindow_init 0 0 []) = None"
    "is_transparent_for_editing (on_canvas_press Focus_AreaWindow_init 0 0 [])"
    "root_alpha (on_canvas_press Focus_AreaWindow_init 0 0 []) = 0.3"
    using w i by (simp_all add: peek_opacity_def)
  from release rest show ?thesis by (intro conjI)
qed

text \<open>While a gesture has an anchor other than \<open>(0, 0)\<close>, drag events change the
  preview item and nothing else, and after at least one of them the preview exists.\<close>

lemma on_canvas_drags_snoc:
  "on_canvas_drags s (events @ [(x, y)]) = on_canvas_drag (on_canvas_drags s events) x y"
  by (simp add: on_canvas_drags_def)

lemma on_canvas_drags_preview:
  assumes "draw_start_x s \<noteq> 0 \<or> draw_start_y s \<noteq> 0"
  shows "\<exists>d. on_canvas_drags s events = s\<lparr> drawing_rect := d \<rparr> \<and>
             (events \<noteq> [] \<longrightarrow> d \<noteq> None) \<and> (events = [] \<longrightarrow> d = drawing_rect s)"
proof (induction events rule: rev_induct)
  case Nil
  show ?case by (simp add: on_canvas_drags_def)
next
  case (snoc e events)
  obtain x y where e: "e = (x, y)" by (cases e)
  from snoc obtain d where d: "on_canvas_drags s events = s\<lparr> drawing_rect := d \<rparr>" by blast
  show ?case
    using assms unfolding e on_canvas_drags_snoc d
    by (auto simp add: on_canvas_drag_def Let_def)
qed

text \<open>A draw gesture whose anchor is not \<open>(0, 0)\<close>: press on empty canvas, at least
  one drag, release. Exactly one area is appended when the normalised rectangle of anchor
  and release point measures at least \<open>MIN_SIZE\<close> both ways, and none otherwise; the
  appended area has exactly the normalised bounds.\<close>

lemma draw_gesture_appends:
  assumes empty: "\<not> list_ex (\<lambda>tags. ''focus_area'' \<in> set tags \<or> ''move_handle'' \<in> set tags)
                      overlapping"
    and anchor: "ax \<noteq> 0 \<or> ay \<noteq> 0"
    and dragged: "events \<noteq> []"
  shows "focus_areas
           (on_canvas_release (on_canvas_drags (on_canvas_press st ax ay overlapping) events)
              rx ry) =
         focus_areas st @
           (if max ax rx - min ax rx \<ge> MIN_SIZE \<and> max ay ry - min ay ry \<ge> MIN_SIZE
            then [FocusArea_init (of_int (min ax rx)) (of_int (min ay ry))
                    (of_int (max ax rx - min ax rx)) (of_int (max ay ry - min ay ry))]
            else [])"
proof -
  let ?p = "on_canvas_press st ax ay overlapping"
  have p: "?p = st\<lparr> draw_start_x := ax, draw_start_y := ay,
                     is_transparent_for_editing := True, root_alpha := peek_opacity \<rparr>"
    using empty by (simp add: on_canvas_press_def set_transparent_for_editing_def Let_def)
  have a: "draw_start_x ?p \<noteq> 0 \<or> draw_start_y ?p \<noteq> 0"
    using anchor by (simp add: p)
  from on_canvas_drags_preview [OF a, of events] dragged
  obtain d where d: "on_canvas_drags ?p events = ?p\<lparr> drawing_rect := Some d \<rparr>"
    by auto
  show ?thesis
    unfolding d using anchor
    by (auto simp add: p on_canvas_release_def set_transparent_for_editing_def
        update_opacity_def Let_def)
qed

lemma rect_FocusArea_init_normalised:
  "rect (FocusArea_init (of_int (min ax rx)) (of_int (min ay ry))
           (of_int (max ax rx - min ax rx)) (of_int (max ay ry - min ay ry))) =
     Some (of_int (min ax rx), of_int (min ay ry), of_int (max ax rx), of_int (max ay ry))"
  by (simp add: FocusArea_init_def Let_def)

text \<open>
  Claim C2. A completed draw gesture (press on empty canvas, drags, release) whose
  normalised preview is at least \<open>MIN_SIZE\<close> wide and high appends exactly one focus
  area with those bounds, and otherwise none. The code does so for every anchor but
  \<open>(0, 0)\<close> (\<open>draw_gesture_appends\<close>). A gesture anchored at \<open>(0, 0)\<close> is taken for
  "no gesture": pressed at the origin, dragged and released at \<open>(50, 50)\<close>, the preview
  would be 50 by 50, and no area is appended.
\<close>

theorem C2_origin_anchor_appends_nothing:
  "max 0 50 - min 0 50 \<ge> MIN_SIZE \<and>
   focus_areas
     (on_canvas_release
        (on_canvas_drags (on_canvas_press Focus_AreaWindow_init 0 0 []) [(50, 50)]) 50 50) = []"
  by (simp add: MIN_SIZE_def on_canvas_press_def on_canvas_drags_def on_canvas_drag_def
      on_canvas_release_def set_transparent_for_editing_def Focus_AreaWindow_init_def Let_def)

text \<open>
  Claim C4, as stated: each of the pause shortcut, the canvas double click and the tray
  toggle takes Visible to Paused and Paused to Visible. The shortcut does not: applied to
  the paused window it leaves it paused.
\<close>

theorem C4_pause_shortcut_counterexample:
  "\<not> is_visible (toggle_pause Focus_AreaWindow_init) \<and>
   \<not> is_visible (on_pause_shortcut (toggle_pause Focus_AreaWindow_init))"
  by (simp add: toggle_pause_def on_pause_shortcut_def Focus_AreaWindow_init_def Let_def)

text \<open>Resuming writes \<open>veil_opacity\<close> to the window without looking at the peek
  flags, as \<open>update_opacity\<close> does before it writes. Ctrl+Shift+X presses Shift first,
  so a window paused by the shortcut can be resumed with shift peek still recorded: the
  alpha applied is then the veil opacity, not the opacity resolved from the state.\<close>

lemma resume_while_peeking:
  "is_peeking (toggle_pause (on_pause_shortcut (on_shift_press Focus_AreaWindow_init))) \<and>
   spec_effective_opacity
     (toggle_pause (on_pause_shortcut (on_shift_press Focus_AreaWindow_init))) = 0.55 \<and>
   root_alpha (toggle_pause (on_pause_shortcut (on_shift_press Focus_AreaWindow_init))) = 1"
  by (simp add: toggle_pause_def on_pause_shortcut_def on_shift_press_def
      spec_effective_opacity_def Focus_AreaWindow_init_def Let_def)

text \<open>
  Claim C4, amended. \<open>toggle_pause\<close>, which is the handler of the canvas double click
  and of both tray entries, toggles the visibility: from Visible the window is withdrawn;
  from Paused it is shown, raised, made topmost and given the focus, and when neither
  editing peek nor shift peek is active the opacity resolved from the state is applied
  again. The pause shortcut only pauses: from Visible it withdraws the window, from
  Paused it changes nothing.
\<close>

theorem C4_visibility_toggles:
  "(is_visible st \<longrightarrow>
      \<not> is_visible (toggle_pause st) \<and> \<not> root_mapped (toggle_pause st)) \<and>
   (\<not> is_visible st \<longrightarrow>
      is_visible (toggle_pause st) \<and> root_mapped (toggle_pause st) \<and>
      root_raised (toggle_pause st) \<and> root_topmost (toggle_pause st) \<and>
      root_focus (toggle_pause st)) \<and>
   (\<not> is_visible st \<and> \<not> is_peeking st \<and> \<not> is_transparent_for_editing st \<longrightarrow>
      root_alpha (toggle_pause st) = spec_effective_opacity (toggle_pause st)) \<and>
   tray_toggle_visibility st = toggle_pause st \<and>
   tray_toggle_pause st = toggle_pause st \<and>
   (is_visible st \<longrightarrow>
      \<not> is_visible (on_pause_shortcut st) \<and> \<not> root_mapped (on_pause_shortcut st)) \<and>
   (\<not> is_visible st \<longrightarrow> on_pause_shortcut st = st)"
  by (simp add: toggle_pause_def on_pause_shortcut_def tray_toggle_visibility_def
      tray_toggle_pause_def spec_effective_opacity_def Let_def)

text \<open>Pausing and resuming the initial window, and the shortcut on both states.\<close>

theorem C4_visibility_toggles_witness:
  "is_visible Focus_AreaWindow_init \<and>
   \<not> is_visible (toggle_pause Focus_AreaWindow_init) \<and>
   \<not> root_mapped (toggle_pause Focus_AreaWindow_init) \<and>
   \<not> is_peeking (toggle_pause Focus_AreaWindow_init) \<and>
   \<not> is_transparent_for_editing (toggle_pause Focus_AreaWindow_init) \<and>
   is_visible (toggle_pause (toggle_pause Focus_AreaWindow_init)) \<and>
   root_mapped (toggle_pause (toggle_pause Focus_AreaWindow_init)) \<and>
   root_raised (toggle_pause (toggle_pause Focus_AreaWindow_init)) \<and>
   root_topmost (toggle_pause (toggle_pause Focus_AreaWindow_init)) \<and>
   root_focus (toggle_pause (toggle_pause Focus_AreaWindow_init)) \<and>
   root_alpha (toggle_pause (toggle_pause Focus_AreaWindow_init)) = 1 \<and>
   \<not> is_visible (on_pause_shortcut Focus_AreaWindow_init) \<and>
   on_pause_shortcut (toggle_pause Focus_AreaWindow_init) = toggle_pause Focus_AreaWindow_init"
proof -
  let ?i = Focus_AreaWindow_init
  have i: "is_visible ?i" "veil_opacity ?i = 1" "\<not> is_peeking ?i"
    "\<not> is_transparent_for_editing ?i"
    by (simp_all add: Focus_AreaWindow_init_def)
  note a = C4_visibility_toggles [of ?i]
  have p: "\<not> is_visible (toggle_pause ?i)" "\<not> root_mapped (toggle_pause ?i)"
    "\<not> is_visible (on_pause_shortcut ?i)"
    using a i by simp_all
  have q: "\<not> is_peeking (toggle_pause ?i)" "\<not> is_transparent_for_editing (toggle_pause ?i)"
    "veil_opacity (toggle_pause ?i) = 1"
    using i by (simp_all add: toggle_pause_def Let_def)
  have q': "\<not> is_peeking (toggle_pause (toggle_pause ?i))"
    "\<not> is_transparent_for_editing (toggle_pause (toggle_pause ?i))"
    "veil_opacity (toggle_pause (toggle_pause ?i)) = 1"
    using q by (simp_all add: toggle_pause_def Let_def)
  note b = C4_visibility_toggles [of "toggle_pause ?i"]
  have r: "is_visible (toggle_pause (toggle_pause ?i))"
    "root_mapped (toggle_pause (toggle_pause ?i))"
    "root_raised (toggle_pause (toggle_pause ?i))"
    "root_topmost (toggle_pause (toggle_pause ?i))"
    "root_focus (toggle_pause (toggle_pause ?i))"
    "on_pause_shortcut (toggle_pause ?i) = toggle_pause ?i"
    using b p by simp_all
  have al: "root_alpha (toggle_pause (toggle_pause ?i)) = 1"
    using b p q q' by (simp add: spec_effective_opacity_def)
  from i(1) p(1,2) q(1,2) r(1-5) al p(3) r(6) show ?thesis by (intro conjI)
qed

text \<open>
  Claim C3, as stated: in every editor state the window opacity is the one resolved from
  the state, editing peek (0.30) first, then shift peek (\<open>peek_through_opacity\<close>), then
  \<open>veil_opacity\<close>. With the veil at 0.5 (set from the opacity dialog, or loaded from
  the configuration) and the default peek-through opacity 0.55, pressing Shift enters
  shift peek, so the resolution gives 0.55, but the window alpha stays 0.5: the press
  applies the peek-through opacity only when it is below the veil opacity.
\<close>

theorem C3_effective_opacity_counterexample:
  "is_peeking (on_shift_press (Focus_AreaWindow_init\<lparr> veil_opacity := 0.5, root_alpha := 0.5 \<rparr>)) \<and>
   \<not> is_transparent_for_editing
       (on_shift_press (Focus_AreaWindow_init\<lparr> veil_opacity := 0.5, root_alpha := 0.5 \<rparr>)) \<and>
   spec_effective_opacity
       (on_shift_press (Focus_AreaWindow_init\<lparr> veil_opacity := 0.5, root_alpha := 0.5 \<rparr>)) = 0.55 \<and>
   root_alpha
       (on_shift_press (Focus_AreaWindow_init\<lparr> veil_opacity := 0.5, root_alpha := 0.5 \<rparr>)) = 0.5"
  by (simp add: on_shift_press_def spec_effective_opacity_def Focus_AreaWindow_init_def Let_def)

text \<open>Pressing Shift in the middle of a draw gesture applies \<open>peek_through_opacity\<close>
  although the editing peek is on: \<open>on_shift_press\<close> does not look at
  \<open>is_transparent_for_editing\<close>, as \<open>on_shift_release\<close> and \<open>update_opacity\<close>
  do.\<close>

lemma shift_press_during_draw:
  "is_transparent_for_editing (on_shift_press (on_canvas_press Focus_AreaWindow_init 5 5 [])) \<and>
   is_peeking (on_shift_press (on_canvas_press Focus_AreaWindow_init 5 5 [])) \<and>
   root_alpha (on_shift_press (on_canvas_press Focus_AreaWindow_init 5 5 [])) = 0.55"
  by (simp add: on_shift_press_def on_canvas_press_def set_transparent_for_editing_def
      Focus_AreaWindow_init_def Let_def)

text \<open>
  Claim C3, amended. The window alpha is the opacity resolved from the state right after
  each of these steps: a press on empty canvas that starts a draw gesture (0.30, whether or
  not shift peek is active); a Shift press outside a draw gesture while visible, when
  \<open>peek_through_opacity < veil_opacity\<close> (when it is not, the applied alpha is left as
  it was); a Shift release outside a draw gesture; the release that ends a draw gesture
  while shift peek is not active; and \<open>update_opacity\<close> when neither peek is active.
\<close>

theorem C3_applied_opacity:
  "(\<not> list_ex (\<lambda>tags. ''focus_area'' \<in> set tags \<or> ''move_handle'' \<in> set tags) overlapping \<longrightarrow>
      root_alpha (on_canvas_press st x y overlapping) = 0.3 \<and>
      root_alpha (on_canvas_press st x y overlapping) =
        spec_effective_opacity (on_canvas_press st x y overlapping)) \<and>
   (is_visible st \<and> \<not> is_peeking st \<and> \<not> is_transparent_for_editing st \<longrightarrow>
      root_alpha (on_shift_press st) =
        (if peek_through_opacity st < veil_opacity st
         then spec_effective_opacity (on_shift_press st)
         else root_alpha st)) \<and>
   (is_peeking st \<and> \<not> is_transparent_for_editing st \<longrightarrow>
      root_alpha (on_shift_release st) = spec_effective_opacity (on_shift_release st)) \<and>
   (\<not> is_peeking st \<and> (draw_start_x st \<noteq> 0 \<or> draw_start_y st \<noteq> 0) \<longrightarrow>
      root_alpha (on_canvas_release st x y) = spec_effective_opacity (on_canvas_release st x y)) \<and>
   (\<not> is_peeking st \<and> \<not> is_transparent_for_editing st \<longrightarrow>
      root_alpha (update_opacity st) = spec_effective_opacity (update_opacity st))"
proof (intro conjI impI)
  assume "\<not> list_ex (\<lambda>tags. ''focus_area'' \<in> set tags \<or> ''move_handle'' \<in> set tags) overlapping"
  then have p: "on_canvas_press st x y overlapping =
      st\<lparr> draw_start_x := x, draw_start_y := y,
          is_transparent_for_editing := True, root_alpha := peek_opacity \<rparr>"
    by (simp add: on_canvas_press_def set_transparent_for_editing_def Let_def)
  show "root_alpha (on_canvas_press st x y overlapping) = 0.3"
    by (simp add: p peek_opacity_def)
  show "root_alpha (on_canvas_press st x y overlapping) =
        spec_effective_opacity (on_canvas_press st x y overlapping)"
    by (simp add: p spec_effective_opacity_def)
next
  assume "is_visible st \<and> \<not> is_peeking st \<and> \<not> is_transparent_for_editing st"
  then show "root_alpha (on_shift_press st) =
        (if peek_through_opacity st < veil_opacity st
         then spec_effective_opacity (on_shift_press st)
         else root_alpha st)"
    by (simp add: on_shift_press_def spec_effective_opacity_def Let_def)
next
  assume "is_peeking st \<and> \<not> is_transparent_for_editing st"
  then show "root_alpha (on_shift_release st) = spec_effective_opacity (on_shift_release st)"
    by (simp add: on_shift_release_def spec_effective_opacity_def Let_def)
next
  assume "\<not> is_peeking st \<and> (draw_start_x st \<noteq> 0 \<or> draw_start_y st \<noteq> 0)"
  then show "root_alpha (on_canvas_release st x y) =
      spec_effective_opacity (on_canvas_release st x y)"
    by (auto simp add: on_canvas_release_def set_transparent_for_editing_def update_opacity_def
        spec_effective_opacity_def Let_def split: option.splits)
next
  assume "\<not> is_peeking st \<and> \<not> is_transparent_for_editing st"
  then show "root_alpha (update_opacity st) = spec_effective_opacity (update_opacity st)"
    by (simp add: update_opacity_def spec_effective_opacity_def Let_def)
qed

text \<open>From the initial state: a draw started while Shift is held, a Shift press and
  release, a complete small draw gesture, and \<open>update_opacity\<close>.\<close>

theorem C3_applied_opacity_witness:
  "root_alpha (on_canvas_press (on_shift_press Focus_AreaWindow_init) 5 5 []) = 0.3 \<and>
   is_peeking (on_canvas_press (on_shift_press Focus_AreaWindow_init) 5 5 []) \<and>
   root_alpha (on_shift_press Focus_AreaWindow_init) = 0.55 \<and>
   root_alpha (on_shift_release (on_shift_press Focus_AreaWindow_init)) = 1 \<and>
   root_alpha (on_canvas_release (on_canvas_press Focus_AreaWindow_init 5 5 []) 9 9) = 1 \<and>
   root_alpha (update_opacity Focus_AreaWindow_init) = 1"
proof -
  let ?i = Focus_AreaWindow_init
  have e: "\<not> list_ex (\<lambda>tags. ''focus_area'' \<in> set tags \<or> ''move_handle'' \<in> set tags) []"
    by simp
  have i: "is_visible ?i" "\<not> is_peeking ?i" "\<not> is_transparent_for_editing ?i"
    "veil_opacity ?i = 1" "peek_through_opacity ?i = 0.55"
    by (simp_all add: Focus_AreaWindow_init_def)
  have s: "is_peeking (on_shift_press ?i)" "\<not> is_transparent_for_editing (on_shift_press ?i)"
    "veil_opacity (on_shift_press ?i) = 1" "peek_through_opacity (on_shift_press ?i) = 0.55"
    using i by (simp_all add: on_shift_press_def Let_def)
  have d: "\<not> is_peeking (on_canvas_press ?i 5 5 [])"
    "draw_start_x (on_canvas_press ?i 5 5 []) = 5"
    "veil_opacity (on_canvas_press ?i 5 5 []) = 1"
    "is_peeking (on_canvas_press (on_shift_press ?i) 5 5 [])"
    using i s by (simp_all add: on_canvas_press_def set_transparent_for_editing_def Let_def)
  have r: "\<not> is_transparent_for_editing (on_canvas_release (on_canvas_press ?i 5 5 []) 9 9)"
    "\<not> is_peeking (on_canvas_release (on_canvas_press ?i 5 5 []) 9 9)"
    "veil_opacity (on_canvas_release (on_canvas_press ?i 5 5 []) 9 9) = 1"
    using d by (simp_all add: on_canvas_release_def set_transparent_for_editing_def
        update_opacity_def Let_def split: option.splits)
  have u: "\<not> is_transparent_for_editing (update_opacity ?i)" "\<not> is_peeking (update_opacity ?i)"
    "veil_opacity (update_opacity ?i) = 1"
    using i by (simp_all add: update_opacity_def Let_def)
  have r': "\<not> is_transparent_for_editing (on_shift_release (on_shift_press ?i))"
    "\<not> is_peeking (on_shift_release (on_shift_press ?i))"
    "veil_opacity (on_shift_release (on_shift_press ?i)) = 1"
    using s by (simp_all add: on_shift_release_def Let_def)
  have 1: "root_alpha (on_canvas_press (on_shift_press ?i) 5 5 []) = 0.3"
    using C3_applied_opacity [of "[]" "on_shift_press ?i" 5 5] e by simp
  have 2: "root_alpha (on_shift_press ?i) = 0.55"
    using C3_applied_opacity [of "[]" ?i 5 5] i s by (simp add: spec_effective_opacity_def)
  have 3: "root_alpha (on_shift_release (on_shift_press ?i)) = 1"
    using C3_applied_opacity [of "[]" "on_shift_press ?i" 5 5] s r'
    by (simp add: spec_effective_opacity_def)
  have 4: "root_alpha (on_canvas_release (on_canvas_press ?i 5 5 []) 9 9) = 1"
    using C3_applied_opacity [of "[]" "on_canvas_press ?i 5 5 []" 9 9] d r
    by (simp add: spec_effective_opacity_def)
  have 5: "root_alpha (update_opacity ?i) = 1"
    using C3_applied_opacity [of "[]" ?i 5 5] i u by (simp add: spec_effective_opacity_def)
  from 1 d(4) 2 3 4 5 show ?thesis by (intro conjI)
qed

section \<open>Properties of saving and loading\<close>

text \<open>Rounding to a double: within a binade the rounding is to a multiple of the unit in
  the last place, and every whole number below \<open>2 ^ 53\<close> in absolute value is its own
  rounding.\<close>

lemma round_ties_even_of_int: "round_ties_even (of_int k) = k"
  by (simp add: round_ties_even_def)

lemma pow2_diff:
  assumes "n \<le> k"
  shows "(2::real) powr (real n - real k) = 1 / 2 ^ (k - n)"
proof -
  have "real n - real k = - real (k - n)"
    using assms by (simp add: of_nat_diff)
  then have "(2::real) powr (real n - real k) = 2 powr (- real (k - n))"
    by (simp only:)
  also have "\<dots> = inverse (2 powr real (k - n))"
    by (rule powr_minus)
  also have "\<dots> = inverse (2 ^ (k - n))"
    by (simp only: powr_realpow zero_less_numeral)
  finally show ?thesis by (simp only: inverse_eq_divide)
qed

lemma floor_log2_binade:
  assumes lo: "2 ^ n \<le> \<bar>x::real\<bar>" and hi: "\<bar>x\<bar> < 2 ^ Suc n"
  shows "\<lfloor>log 2 \<bar>x\<bar>\<rfloor> = int n"
proof (rule floor_unique)
  have "(0::real) < 2 ^ n" by simp
  with lo have pos: "0 < \<bar>x\<bar>" by linarith
  show "of_int (int n) \<le> log 2 \<bar>x\<bar>"
    using lo pos by (simp add: le_log_iff powr_realpow)
  show "log 2 \<bar>x\<bar> < of_int (int n) + 1"
    using hi pos by (simp add: log_less_iff powr_realpow powr_add)
qed

lemma round_to_double_binade:
  assumes lo: "2 ^ n \<le> \<bar>x\<bar>" and hi: "\<bar>x\<bar> < 2 ^ Suc n" and n: "n \<le> mantissa_bits"
  shows "round_to_double x =
     of_int (round_ties_even (x * 2 ^ (mantissa_bits - n))) / 2 ^ (mantissa_bits - n)"
proof -
  have "(0::real) < 2 ^ n" by simp
  with lo have "0 < \<bar>x\<bar>" by linarith
  then have "x \<noteq> 0" by simp
  moreover have "(2::real) powr (of_int (int n) - real mantissa_bits)
      = 1 / 2 ^ (mantissa_bits - n)"
    using pow2_diff [OF n] by simp
  ultimately show ?thesis
    by (simp add: round_to_double_def Let_def floor_log2_binade [OF lo hi])
qed

lemma round_to_double_of_int:
  assumes "\<bar>z\<bar> < 2 ^ Suc mantissa_bits"
  shows "round_to_double (of_int z) = of_int z"
proof (cases "z = 0")
  case True
  then show ?thesis by (simp add: round_to_double_def)
next
  case False
  let ?x = "real_of_int z"
  let ?e = "\<lfloor>log 2 \<bar>?x\<bar>\<rfloor>"
  have pos: "0 < \<bar>?x\<bar>" using False by simp
  have "real_of_int \<bar>z\<bar> < real_of_int (2 ^ Suc mantissa_bits)"
    using assms by (simp only: of_int_less_iff)
  then have "\<bar>?x\<bar> < 2 ^ Suc mantissa_bits"
    by simp
  then have "\<bar>?x\<bar> < 2 powr real (Suc mantissa_bits)"
    by (simp only: powr_realpow zero_less_numeral)
  then have "log 2 \<bar>?x\<bar> < real (Suc mantissa_bits)"
    using pos by (simp add: log_less_iff)
  then have "?e < int (Suc mantissa_bits)" by linarith
  then have e: "?e \<le> int mantissa_bits" by simp
  have "0 \<le> log 2 \<bar>?x\<bar>"
    using False by (simp add: zero_le_log_cancel_iff)
  then have e0: "0 \<le> ?e" by simp
  define n where "n = nat ?e"
  have n: "n \<le> mantissa_bits" "?e = int n"
    using e e0 by (simp_all add: n_def)
  have ulp: "(2::real) powr (of_int ?e - real mantissa_bits) = 1 / 2 ^ (mantissa_bits - n)"
    using pow2_diff [OF n(1)] by (simp add: n(2))
  have "?x * 2 ^ (mantissa_bits - n) = of_int (z * 2 ^ (mantissa_bits - n))" by simp
  then have r: "round_ties_even (?x * 2 ^ (mantissa_bits - n)) = z * 2 ^ (mantissa_bits - n)"
    by (simp only: round_ties_even_of_int)
  show ?thesis
    using False by (simp add: round_to_double_def Let_def ulp r)
qed

text \<open>On whole coordinates the width \<open>x2 - x1\<close> and the rebuilt edge
  \<open>x1 + (x2 - x1)\<close> are computed without rounding error.\<close>

lemma whole_of_int:
  assumes "whole a"
  obtains i where "a = of_int i" and "\<bar>i\<bar> < 2 ^ mantissa_bits"
proof
  from assms have f: "of_int \<lfloor>a\<rfloor> = a" and s: "\<bar>a\<bar> < 2 ^ mantissa_bits"
    unfolding whole_def by blast+
  show "a = of_int \<lfloor>a\<rfloor>" using f by (rule sym)
  have "\<bar>real_of_int \<lfloor>a\<rfloor>\<bar> < 2 ^ mantissa_bits" using s by (simp only: f)
  then show "\<bar>\<lfloor>a\<rfloor>\<bar> < 2 ^ mantissa_bits"
    by (metis of_int_abs of_int_less_numeral_power_cancel_iff)
qed

lemma whole_difference:
  assumes a: "whole a" and b: "whole b"
  shows "round_to_double (b - a) = b - a" and "round_to_double (a + (b - a)) = b"
proof -
  from a obtain i where i: "a = of_int i" "\<bar>i\<bar> < 2 ^ mantissa_bits" by (rule whole_of_int)
  from b obtain j where j: "b = of_int j" "\<bar>j\<bar> < 2 ^ mantissa_bits" by (rule whole_of_int)
  have small: "\<bar>j - i\<bar> < 2 ^ Suc mantissa_bits" "\<bar>j\<bar> < 2 ^ Suc mantissa_bits"
    using i(2) j(2) by simp_all
  have d: "b - a = of_int (j - i)" and s: "a + (b - a) = of_int j"
    by (simp_all add: i(1) j(1))
  show "round_to_double (b - a) = b - a"
    unfolding d by (rule round_to_double_of_int [OF small(1)])
  have "round_to_double (a + (b - a)) = round_to_double (of_int j)"
    by (simp only: s)
  also have "\<dots> = of_int j"
    by (rule round_to_double_of_int [OF small(2)])
  finally show "round_to_double (a + (b - a)) = b"
    by (simp only: j(1))
qed

text \<open>Loading the entries that \<open>save_config\<close> writes for areas with whole coordinates
  never fails and rebuilds an area with the same rectangle for each entry, in order.\<close>

lemma load_focus_areas_saved:
  assumes "\<forall>fa \<in> set areas. \<exists>c. rect fa = Some c \<and> pixel_coords c"
  shows "\<exists>loaded. load_focus_areas acc (map (\<lambda>fa. coords_json (get_coords fa)) areas)
                     = Inr (acc @ loaded) \<and>
                  map rect loaded = map rect areas"
  using assms
proof (induction areas arbitrary: acc)
  case Nil
  show ?case by simp
next
  case (Cons fa areas)
  from Cons.prems obtain x1 y1 x2 y2 where fa: "rect fa = Some (x1, y1, x2, y2)"
    and px: "pixel_coords (x1, y1, x2, y2)"
    by (metis list.set_intros(1) prod_cases4)
  from px have w: "whole x1" "whole y1" "whole x2" "whole y2"
    by (simp_all add: pixel_coords_def)
  let ?new = "FocusArea_init_float x1 y1 (x2 - x1) (y2 - y1)"
  have new: "rect ?new = rect fa"
    using whole_difference(2) [OF w(1) w(3)] whole_difference(2) [OF w(2) w(4)]
    by (simp add: FocusArea_init_float_def Let_def fa)
  from Cons.prems have "\<forall>fa \<in> set areas. \<exists>c. rect fa = Some c \<and> pixel_coords c" by simp
  from Cons.IH [OF this, of "acc @ [?new]"]
  obtain loaded where l:
    "load_focus_areas (acc @ [?new]) (map (\<lambda>fa. coords_json (get_coords fa)) areas)
       = Inr ((acc @ [?new]) @ loaded)"
    "map rect loaded = map rect areas"
    by blast
  have step: "load_focus_areas acc (map (\<lambda>fa. coords_json (get_coords fa)) (fa # areas))
      = load_focus_areas (acc @ [?new]) (map (\<lambda>fa. coords_json (get_coords fa)) areas)"
    using whole_difference(1) [OF w(1) w(3)] whole_difference(1) [OF w(2) w(4)]
    by (simp add: coords_json_def get_coords_def fa py_sub_def)
  show ?case
  proof (intro exI conjI)
    show "load_focus_areas acc (map (\<lambda>fa. coords_json (get_coords fa)) (fa # areas))
        = Inr (acc @ (?new # loaded))"
      unfolding step l(1) by simp
    show "map rect (?new # loaded) = map rect (fa # areas)"
      using new l(2) by simp
  qed
qed

text \<open>With fractional coordinates the rebuilt edge can miss the saved one by a unit in
  the last place: for the doubles nearest 29.9 and 118.7, \<open>x1 + (x2 - x1)\<close> is
  118.70000000000002. Such coordinates enter only through a configuration file edited by
  hand.\<close>

lemma double_sum_drifts:
  "round_to_double (round_to_double 29.9 +
      round_to_double (round_to_double 118.7 - round_to_double 29.9))
   \<noteq> round_to_double 118.7"
proof -
  have a: "round_to_double 29.9 = 8416101803648614 / 2 ^ 48"
    by (subst round_to_double_binade [of 4, unfolded mantissa_bits_def])
       (simp_all add: round_ties_even_def Let_def)
  have b: "round_to_double 118.7 = 8352769933888717 / 2 ^ 46"
    by (subst round_to_double_binade [of 6, unfolded mantissa_bits_def])
       (simp_all add: round_ties_even_def Let_def)
  have w: "round_to_double (round_to_double 118.7 - round_to_double 29.9)
      = 6248744482976564 / 2 ^ 46"
    unfolding a b
    by (subst round_to_double_binade [of 6, unfolded mantissa_bits_def])
       (simp_all add: round_ties_even_def Let_def)
  have s: "round_to_double (round_to_double 29.9 +
      round_to_double (round_to_double 118.7 - round_to_double 29.9))
      = 8352769933888718 / 2 ^ 46"
    unfolding w unfolding a
    by (subst round_to_double_binade [of 6, unfolded mantissa_bits_def])
       (simp_all add: round_ties_even_def Let_def)
  show ?thesis unfolding s unfolding b by simp
qed

lemma fractional_area_not_restored:
  "\<exists>fa. load_focus_areas []
           [coords_json (Some (round_to_double 29.9, 0, round_to_double 118.7, 10))]
         = Inr [fa] \<and>
        rect fa \<noteq> Some (round_to_double 29.9, 0, round_to_double 118.7, 10)"
proof -
  let ?a = "round_to_double 29.9" and ?b = "round_to_double 118.7"
  let ?fa = "FocusArea_init_float ?a 0 (round_to_double (?b - ?a)) (round_to_double (10 - 0))"
  have "load_focus_areas [] [coords_json (Some (?a, 0, ?b, 10))] = Inr [?fa]"
    by (simp add: coords_json_def py_sub_def)
  moreover have "rect ?fa \<noteq> Some (?a, 0, ?b, 10)"
    using double_sum_drifts by (simp add: FocusArea_init_float_def Let_def)
  ultimately show ?thesis by blast
qed

text \<open>
  Claim C5, as stated: for every editor state with N focus areas and valid opacities,
  saving and then loading gives the same N rectangles and the same opacities. A load that
  failed on an unknown colour name has left that name in \<open>veil_color\<close>. An area drawn
  afterwards is saved together with it, and loading the saved file into a fresh window
  fails on the colour again, before any area is rebuilt: one rectangle was saved, none is
  loaded.
\<close>

theorem C5_unknown_colour_counterexample:
  "(let valid_color = (\<lambda>c. c \<noteq> ''notacolor'');
        bad = Dict \<lparr> cfg_veil_color = Some ''notacolor'', cfg_veil_opacity = None,
                       cfg_peek_through_opacity = None,
                       cfg_show_quick_start_on_startup = None, cfg_focus_areas = None \<rparr>;
        failed = fst (load_config valid_color Focus_AreaWindow_init (Some bad) False);
        drawn = on_canvas_release
                  (on_canvas_drags (on_canvas_press failed 10 10 []) [(110, 60)]) 110 60;
        file = fst (save_config drawn True);
        loaded = load_config valid_color Focus_AreaWindow_init file False
    in map rect (focus_areas drawn) = [Some (10, 10, 110, 60)] \<and>
       focus_areas (fst loaded) = [] \<and>
       snd loaded = Some (Error_dialog ''Failed to load configuration'' TclError))"
  by (simp add: Let_def load_config_def save_config_def dict_get_def on_canvas_press_def
      on_canvas_drags_def on_canvas_drag_def on_canvas_release_def
      set_transparent_for_editing_def update_opacity_def MIN_SIZE_def FocusArea_init_def
      Focus_AreaWindow_init_def)

text \<open>
  Claim C5, amended. For every editor state whose focus areas have whole-number
  coordinates (below \<open>2 ^ 52\<close> in absolute value, as every pointer position is) and
  whose veil colour is one the host accepts, saving the configuration
  (with a write that succeeds) and loading the saved file, into any state of the window,
  gives a state with the same number of focus areas, with the same coordinates
  \<open>(x1, y1, x2, y2)\<close> in the same order, and with the same veil opacity and peek-through
  opacity; the load reports no error.
\<close>

theorem C5_save_load_roundtrip:
  assumes pixels: "\<forall>fa \<in> set (focus_areas st). \<exists>c. rect fa = Some c \<and> pixel_coords c"
    and color: "valid_color (veil_color st)"
    and saved: "file = fst (save_config st True)"
    and loaded: "st' = fst (load_config valid_color target file show_message)"
  shows "map rect (focus_areas st') = map rect (focus_areas st) \<and>
         length (focus_areas st') = length (focus_areas st) \<and>
         veil_opacity st' = veil_opacity st \<and>
         peek_through_opacity st' = peek_through_opacity st \<and>
         snd (load_config valid_color target file show_message) =
           (if show_message
            then Some (Info_dialog ''Loaded'' ''Configuration loaded successfully!'')
            else None)"
proof -
  let ?entries = "map (\<lambda>fa. coords_json (get_coords fa)) (focus_areas st)"
  let ?config = "\<lparr> cfg_veil_color = Some (veil_color st),
      cfg_veil_opacity = Some (veil_opacity st),
      cfg_peek_through_opacity = Some (peek_through_opacity st),
      cfg_show_quick_start_on_startup = Some (show_quick_start_on_startup st),
      cfg_focus_areas = Some (JArr ?entries) \<rparr>"
  have content: "file = Some (Dict ?config)"
    unfolding saved by (simp add: save_config_def Let_def)
  from load_focus_areas_saved [OF pixels, of "[]"]
  obtain areas where areas: "load_focus_areas [] ?entries = Inr areas"
    "map rect areas = map rect (focus_areas st)"
    by auto
  have result: "load_config valid_color target file show_message =
      ((delete_all_focus_areas
          (update_opacity
             (target\<lparr> veil_color := veil_color st, veil_opacity := veil_opacity st,
                   peek_through_opacity := peek_through_opacity st,
                   show_quick_start_on_startup := show_quick_start_on_startup st,
                   root_bg := veil_color st, canvas_bg := veil_color st \<rparr>)))
         \<lparr> focus_areas := areas \<rparr>,
       if show_message
       then Some (Info_dialog ''Loaded'' ''Configuration loaded successfully!'')
       else None)"
    unfolding content using color areas(1)
    by (simp add: load_config_def dict_get_def Let_def delete_all_focus_areas_def)
  have len: "length areas = length (focus_areas st)"
    using areas(2) by (rule map_eq_imp_length_eq)
  show ?thesis
    unfolding loaded result using areas(2) len
    by (simp add: delete_all_focus_areas_def update_opacity_def Let_def)
qed

text \<open>Two areas and the opacities 0.8 and 0.4, saved and loaded into the initial state.\<close>

theorem C5_save_load_roundtrip_witness:
  "map rect (focus_areas (fst (load_config (\<lambda>c. c \<noteq> ''notacolor'') Focus_AreaWindow_init
       (fst (save_config
          (Focus_AreaWindow_init\<lparr> veil_opacity := 0.8, peek_through_opacity := 0.4,
             focus_areas := [FocusArea_init 10 20 100 50, FocusArea_init 300 300 40 40] \<rparr>)
          True))
       False)))
     = [Some (10, 20, 110, 70), Some (300, 300, 340, 340)] \<and>
   veil_opacity (fst (load_config (\<lambda>c. c \<noteq> ''notacolor'') Focus_AreaWindow_init
       (fst (save_config
          (Focus_AreaWindow_init\<lparr> veil_opacity := 0.8, peek_through_opacity := 0.4,
             focus_areas := [FocusArea_init 10 20 100 50, FocusArea_init 300 300 40 40] \<rparr>)
          True))
       False)) = 0.8 \<and>
   peek_through_opacity (fst (load_config (\<lambda>c. c \<noteq> ''notacolor'') Focus_AreaWindow_init
       (fst (save_config
          (Focus_AreaWindow_init\<lparr> veil_opacity := 0.8, peek_through_opacity := 0.4,
             focus_areas := [FocusArea_init 10 20 100 50, FocusArea_init 300 300 40 40] \<rparr>)
          True))
       False)) = 0.4"
proof -
  let ?st = "Focus_AreaWindow_init\<lparr> veil_opacity := 0.8, peek_through_opacity := 0.4,
             focus_areas := [FocusArea_init 10 20 100 50, FocusArea_init 300 300 40 40] \<rparr>"
  have st: "map rect (focus_areas ?st) = [Some (10, 20, 110, 70), Some (300, 300, 340, 340)]"
    "veil_opacity ?st = 0.8" "peek_through_opacity ?st = 0.4"
    by (simp_all add: FocusArea_init_def Let_def)
  have px: "pixel_coords (10, 20, 110, 70)" "pixel_coords (300, 300, 340, 340)"
    by (simp_all add: pixel_coords_def whole_def mantissa_bits_def)
  have pixels: "\<forall>fa \<in> set (focus_areas ?st). \<exists>c. rect fa = Some c \<and> pixel_coords c"
    using px by (simp add: FocusArea_init_def Let_def)
  have color: "veil_color ?st \<noteq> ''notacolor''"
    by (simp add: Focus_AreaWindow_init_def)
  note w = C5_save_load_roundtrip [where valid_color = "\<lambda>c. c \<noteq> ''notacolor''"
      and st = ?st and target = Focus_AreaWindow_init and show_message = False,
      OF pixels color refl refl]
  from w st show ?thesis by simp
qed


text \<open>Whatever happens after them, the four scalar assignments of \<open>load_config\<close>
  stay: the state returned for a dict differs from the state after them at most in what
  the later steps write.\<close>






end
